theory Spec2Isabelle
  imports Complex_Main
begin

section \<open>Shallow embedding of raytracer.cpp\<close>

text \<open>
  The C++ type \<open>double\<close> is read as the mathematical reals (the specification's data
  model, section 3, gives every coordinate and channel as a real number).  What is proved
  here is about the control flow and the order of the operations: which branch is taken,
  what is assigned, what is added and clamped.  Rounding, underflow and overflow are outside
  this development, so nothing is claimed that is true only because the arithmetic is exact:
  the double \<open>length()\<close> of \<open>(1e-200, 0, 0)\<close> is \<open>0\<close> and that of \<open>(1e200, 0, 0)\<close> is
  infinite, and \<open>(c + u * r - c) / r\<close> is \<open>u\<close> only up to rounding.  A division by
  zero is an explicit error value; where the source goes on computing with the outcome, the
  model follows it as far as the outcome stays away from the pixel colour.  The
  out-parameter \<open>double& dist\<close> of \<open>intersect\<close> is explicit state: the function takes
  the value the caller's variable holds before the call and returns the value it holds
  afterwards.
\<close>

subsection \<open>Vec3d\<close>

text \<open>
  \<open>struct Vec3d { double x, y, z; }\<close>.  The selectors carry a prefix, since \<open>x\<close>, \<open>y\<close>
  and \<open>z\<close> as constants would capture the variables of every later statement.
\<close>

datatype Vec3d = Vec3d (vec_x: real) (vec_y: real) (vec_z: real)

datatype error = DivideByZero

text \<open>\<open>operator-=\<close> / \<open>operator-\<close> (lines 22-28, 75-78).\<close>

fun Vec3d_minus :: "Vec3d \<Rightarrow> Vec3d \<Rightarrow> Vec3d" where
  "Vec3d_minus (Vec3d x y z) (Vec3d rx ry rz) = Vec3d (x - rx) (y - ry) (z - rz)"

text \<open>
  \<open>operator/=\<close> / \<open>operator/\<close> (lines 30-36, 80-82).  The source divides each component by
  \<open>v\<close>; for \<open>v = 0\<close> that is a floating-point division by zero, which is the error branch here
  (HOL's own \<open>a / 0 = 0\<close> would hide it).
\<close>

fun Vec3d_div :: "Vec3d \<Rightarrow> real \<Rightarrow> error + Vec3d" where
  "Vec3d_div (Vec3d x y z) v =
     (if v = 0 then Inl DivideByZero else Inr (Vec3d (x / v) (y / v) (z / v)))"

text \<open>\<open>operator+=\<close> / \<open>operator+\<close> (lines 38-44, 84-86).\<close>

fun Vec3d_plus :: "Vec3d \<Rightarrow> Vec3d \<Rightarrow> Vec3d" where
  "Vec3d_plus (Vec3d x y z) (Vec3d rx ry rz) = Vec3d (x + rx) (y + ry) (z + rz)"

text \<open>\<open>operator*=\<close> / \<open>operator*\<close> (lines 46-52, 88-90).\<close>

fun Vec3d_times :: "Vec3d \<Rightarrow> real \<Rightarrow> Vec3d" where
  "Vec3d_times (Vec3d x y z) val = Vec3d (x * val) (y * val) (z * val)"

fun dotProduct :: "Vec3d \<Rightarrow> Vec3d \<Rightarrow> real" where
  "dotProduct (Vec3d x y z) (Vec3d x2 y2 z2) = (x * x2) + (y * y2) + (z * z2)"

text \<open>\<open>Vec3d::length\<close> (lines 61-64).\<close>

definition Vec3d_length :: "Vec3d \<Rightarrow> real" where
  "Vec3d_length v = sqrt (dotProduct v v)"

text \<open>\<open>Vec3d::normalize\<close> (lines 66-71): \<open>double l = length(); *this /= l;\<close>.\<close>

definition normalize :: "Vec3d \<Rightarrow> error + Vec3d" where
  "normalize v = (let l = Vec3d_length v in Vec3d_div v l)"

subsection \<open>Ray\<close>

datatype Ray = Ray (origin: Vec3d) (direction: Vec3d)

definition getPoint :: "Ray \<Rightarrow> real \<Rightarrow> Vec3d" where
  "getPoint ray d = Vec3d_plus (origin ray) (Vec3d_times (direction ray) d)"

subsection \<open>Object and Sphere\<close>

text \<open>
  \<open>Object\<close> is the abstract base class and \<open>Sphere\<close> its only subclass: a datatype with
  one constructor, the two virtual functions dispatching on it.
\<close>

datatype Object = Sphere (center: Vec3d) (radius: real)

definition eps :: real where
  "eps = 0.00001"

text \<open>\<open>std::max(a, b)\<close> is \<open>(a < b) ? b : a\<close> and \<open>std::min(a, b)\<close> is \<open>(b < a) ? b : a\<close>.\<close>

definition std_max :: "real \<Rightarrow> real \<Rightarrow> real" where
  "std_max a b = (if a < b then b else a)"

definition std_min :: "real \<Rightarrow> real \<Rightarrow> real" where
  "std_min a b = (if b < a then b else a)"

text \<open>
  \<open>Sphere::intersect\<close> (lines 131-157).  The third argument \<open>dist0\<close> is the value of the
  caller's \<open>dist\<close> at the call; the result is the returned \<open>bool\<close> and the value of \<open>dist\<close> at the
  return.  On the early return \<open>dist\<close> is untouched, and so it is when neither branch of the
  selection assigns it.
\<close>

fun intersect :: "Object \<Rightarrow> Ray \<Rightarrow> real \<Rightarrow> bool \<times> real" where
  "intersect (Sphere c rad) ray dist0 =
     (let temp = Vec3d_minus (origin ray) c;
          val1 = dotProduct temp (direction ray);
          val2 = Vec3d_length temp;
          val3 = val1 * val1 - val2 * val2 + rad * rad
      in if val3 < 0 then (False, dist0)
         else
           let dist1 = - dotProduct temp (direction ray) + sqrt val3;
               dist2 = - dotProduct temp (direction ray) - sqrt val3;
               dist' = (if dist1 < 0 \<or> dist2 < 0 then std_max dist1 dist2
                        else if dist1 > 0 \<and> dist2 > 0 then std_min dist1 dist2
                        else dist0)
           in (dist' > eps, dist'))"

text \<open>\<open>Sphere::getNormal\<close> (lines 159-166): \<open>Vec3d n{P - center}; n = n / radius;\<close>.\<close>

fun getNormal :: "Object \<Rightarrow> Vec3d \<Rightarrow> error + Vec3d" where
  "getNormal (Sphere c rad) P = (let n = Vec3d_minus P c in Vec3d_div n rad)"

subsection \<open>Color and Light\<close>

text \<open>
  The template \<open>clamp(min, max, val)\<close> (lines 178-183), two assignments to \<open>val\<close> in
  sequence.
\<close>

definition clamp :: "real \<Rightarrow> real \<Rightarrow> real \<Rightarrow> real" where
  "clamp mn mx val =
     (let val' = (if val < mn then mn else val);
          val'' = (if val' > mx then mx else val')
      in val'')"

datatype Color = Color (col_r: real) (col_g: real) (col_b: real)

text \<open>\<open>operator*(Color, double)\<close> (lines 193-198, 251-254).\<close>

fun Color_times_d :: "Color \<Rightarrow> real \<Rightarrow> Color" where
  "Color_times_d (Color r g b) d = Color (r * d) (g * d) (b * d)"

text \<open>\<open>operator*(Color, Color)\<close> (lines 200-205, 256-259).\<close>

fun Color_times :: "Color \<Rightarrow> Color \<Rightarrow> Color" where
  "Color_times (Color r g b) (Color cr cg cb) = Color (r * cr) (g * cg) (b * cb)"

text \<open>\<open>operator+=\<close> / \<open>operator+\<close> on colours (lines 207-212, 247-249).\<close>

fun Color_plus :: "Color \<Rightarrow> Color \<Rightarrow> Color" where
  "Color_plus (Color r g b) (Color rr rg rb) = Color (r + rr) (g + rg) (b + rb)"

text \<open>\<open>Color::clamp\<close> (lines 222-227).\<close>

fun Color_clamp :: "real \<Rightarrow> real \<Rightarrow> Color \<Rightarrow> Color" where
  "Color_clamp mn mx (Color r g b) = Color (clamp mn mx r) (clamp mn mx g) (clamp mn mx b)"

definition Color_white :: Color where
  "Color_white = Color 1 1 1"

definition Color_black :: Color where
  "Color_black = Color 0 0 0"

definition Color_red :: Color where
  "Color_red = Color 1 0 0"

datatype Light = Light (pos: Vec3d) (color: Color)

subsection \<open>The per-pixel body of main\<close>

text \<open>\<open>std::numeric_limits<double>::max()\<close>, the largest finite double.\<close>

definition DBL_MAX :: real where
  "DBL_MAX = 2 ^ 1024 - 2 ^ 971"

text \<open>
  The nearest-hit loop (lines 369-376).  Its state is \<open>dist\<close>, \<open>curo\<close> (the pointer to the
  nearest object so far, \<open>None\<close> for \<open>nullptr\<close>) and \<open>tmpdist\<close>, the variable every call of
  \<open>intersect\<close> of this pixel writes through.
\<close>

fun nearest_hit :: "Object list \<Rightarrow> Ray \<Rightarrow> real \<times> Object option \<times> real
    \<Rightarrow> real \<times> Object option \<times> real" where
  "nearest_hit [] ray st = st"
| "nearest_hit (ob # objects) ray (dst, curo, tmpdist) =
     (case intersect ob ray tmpdist of
        (hit, tmpdist') \<Rightarrow>
          if hit then
            (if tmpdist' < dst then nearest_hit objects ray (tmpdist', Some ob, tmpdist')
             else nearest_hit objects ray (dst, curo, tmpdist'))
          else nearest_hit objects ray (dst, curo, tmpdist'))"

text \<open>
  The occlusion loop (lines 386-395): \<open>inShadow\<close> and the value \<open>tmpdist\<close> is left with.
  The loop stops at the first object whose \<open>intersect\<close> returns true.
\<close>

fun shadow_scan :: "Object list \<Rightarrow> Ray \<Rightarrow> real \<Rightarrow> bool \<times> real" where
  "shadow_scan [] shadow_ray tmpdist = (False, tmpdist)"
| "shadow_scan (ob # objects) shadow_ray tmpdist =
     (case intersect ob shadow_ray tmpdist of
        (hit, tmpdist') \<Rightarrow>
          if hit then (True, tmpdist') else shadow_scan objects shadow_ray tmpdist')"

text \<open>
  One iteration of the loop over the lights (lines 382-402), on the state \<open>(px, tmpdist)\<close>.
  The normal \<open>n\<close> comes from \<open>getNormal\<close> and is an error value for a sphere of radius
  zero.

  \<open>lv.normalize()\<close> on a light at the hit point divides \<open>(0, 0, 0)\<close> by zero: every
  component of \<open>lv\<close> is \<open>0.0 / 0.0\<close>, not a number.  The source carries on.  In each call
  of \<open>intersect\<close> for the shadow ray \<open>val1\<close> and \<open>val3\<close> are then not numbers, every
  comparison with them is false, so there is no early return and no assignment to \<open>dist\<close>,
  and the call returns \<open>dist > eps\<close> for the value \<open>tmpdist\<close> already holds.  The first
  object therefore decides: the light is in shadow when there is an object and
  \<open>tmpdist > eps\<close>, and \<open>tmpdist\<close> stays as it is.  Out of shadow, \<open>diff_factor\<close> is not a
  number and neither is any channel of \<open>px\<close> from then on, through the clamps and the
  ambient term: that outcome, a stored colour that is no triple of reals, is the error
  value.  The same holds when a normal that is an error value meets a light out of shadow.
\<close>

definition light_step :: "Object list \<Rightarrow> Color \<Rightarrow> Vec3d \<Rightarrow> error + Vec3d \<Rightarrow> Light
    \<Rightarrow> Color \<times> real \<Rightarrow> error + (Color \<times> real)" where
  "light_step objects scolor pintersect n l st =
     (case st of (px, tmpdist) \<Rightarrow>
        (case normalize (Vec3d_minus (pos l) pintersect) of
           Inl e \<Rightarrow>
             if objects \<noteq> [] \<and> tmpdist > eps then Inr (px, tmpdist) else Inl e
         | Inr lv \<Rightarrow>
             (case shadow_scan objects (Ray pintersect lv) tmpdist of
                (inShadow, tmpdist') \<Rightarrow>
                  if inShadow then Inr (px, tmpdist')
                  else
                    (case n of
                       Inl e \<Rightarrow> Inl e
                     | Inr nv \<Rightarrow>
                         let diff_factor = dotProduct nv lv
                         in Inr (Color_plus px
                                   (Color_times_d (Color_times scolor (color l)) diff_factor),
                                 tmpdist')))))"

text \<open>The loop over the lights (lines 382-402).\<close>

fun shade_lights :: "Object list \<Rightarrow> Color \<Rightarrow> Vec3d \<Rightarrow> error + Vec3d \<Rightarrow> Light list
    \<Rightarrow> Color \<times> real \<Rightarrow> error + (Color \<times> real)" where
  "shade_lights objects scolor pintersect n [] st = Inr st"
| "shade_lights objects scolor pintersect n (l # lights) st =
     (case light_step objects scolor pintersect n l st of
        Inl e \<Rightarrow> Inl e
      | Inr st' \<Rightarrow> shade_lights objects scolor pintersect n lights st')"

text \<open>
  Lines 362-415 for one primary ray: the colour stored in the frame buffer.  \<open>tmpdist0\<close>
  is the value the uninitialised variable \<open>tmpdist\<close> holds when the pixel starts.
\<close>

definition trace_pixel :: "Object list \<Rightarrow> Light list \<Rightarrow> Color \<Rightarrow> Color \<Rightarrow> Ray \<Rightarrow> real
    \<Rightarrow> error + Color" where
  "trace_pixel objects lights background scolor ray tmpdist0 =
     (case nearest_hit objects ray (DBL_MAX, None, tmpdist0) of
        (dst, None, tmpdist) \<Rightarrow> Inr background
      | (dst, Some curo, tmpdist) \<Rightarrow>
          (let pintersect = getPoint ray dst;
               n = getNormal curo pintersect
           in case shade_lights objects scolor pintersect n lights (Color 0 0 0, tmpdist) of
                Inl e \<Rightarrow> Inl e
              | Inr (px, tmpdist') \<Rightarrow>
                  Inr (Color_clamp 0 1
                         (Color_plus (Color_clamp 0 1 px) (Color_times_d scolor 0.1)))))"

text \<open>
  The primary ray of pixel \<open>(x, y)\<close> (lines 353-360) for an image of \<open>W\<close> by \<open>H\<close> pixels
  and a field of view of \<open>FOV\<close> degrees, and the colour main stores for the pixel: the body
  of the two loops of lines 350-417 with \<open>W = 800\<close>, \<open>H = 500\<close> and \<open>FOV = 100\<close>.
\<close>

definition deg2rad :: "real \<Rightarrow> real" where
  "deg2rad ang = ang * pi / 180"

definition primary_ray :: "nat \<Rightarrow> nat \<Rightarrow> real \<Rightarrow> nat \<Rightarrow> nat \<Rightarrow> error + Ray" where
  "primary_ray W H FOV x y =
     (let px_ndc = (real x + 0.5) / real W;
          py_ndc = (real y + 0.5) / real H;
          cam_x = (2 * px_ndc - 1) * (real W / real H) * tan (deg2rad FOV / 2);
          cam_y = (1 - 2 * py_ndc) * tan (deg2rad FOV / 2)
      in case normalize (Vec3d cam_x cam_y (- 1)) of
           Inl e \<Rightarrow> Inl e
         | Inr d \<Rightarrow> Inr (Ray (Vec3d 0 0 0) d))"

definition render_pixel :: "Object list \<Rightarrow> Light list \<Rightarrow> Color \<Rightarrow> Color \<Rightarrow> nat \<Rightarrow> nat \<Rightarrow> real
    \<Rightarrow> error + Color" where
  "render_pixel objects lights background scolor x y tmpdist0 =
     (case primary_ray 800 500 100 x y of
        Inl e \<Rightarrow> Inl e
      | Inr ray \<Rightarrow> trace_pixel objects lights background scolor ray tmpdist0)"

text \<open>The scene main builds (lines 328-347); the surface colour \<open>scolor\<close> is \<open>Color::red()\<close>.\<close>

definition main_objects :: "Object list" where
  "main_objects =
     [Sphere (Vec3d 0 0 (- 20)) 5,
      Sphere (Vec3d 2 1 (- 15)) 1,
      Sphere (Vec3d 4 4 (- 22)) 2.5,
      Sphere (Vec3d 80 (- 6) (- 150)) 5,
      Sphere (Vec3d (- 4) 4 (- 5)) 2.5]"

definition main_background :: Color where
  "main_background = Color 0 0.5 0.5"

definition main_lights :: "Light list" where
  "main_lights = [Light (Vec3d 30 30 (- 2)) Color_white]"

text \<open>
  What the loops observe: \<open>no_hit\<close> says that every call of \<open>intersect\<close> a loop over the
  objects makes for the ray, \<open>tmpdist\<close> threaded from one call to the next, returns false.
\<close>

fun no_hit :: "Object list \<Rightarrow> Ray \<Rightarrow> real \<Rightarrow> bool" where
  "no_hit [] ray tmpdist = True"
| "no_hit (ob # objects) ray tmpdist =
     (\<not> fst (intersect ob ray tmpdist) \<and> no_hit objects ray (snd (intersect ob ray tmpdist)))"

subsection \<open>Quantities the properties speak of\<close>

text \<open>
  The intermediate quantities of \<open>intersect\<close> as functions of the sphere and the ray, to
  state properties in terms of them: \<open>val1\<close> (the specification's \<open>tca\<close>), the discriminant
  \<open>val3\<close> and the two roots.
\<close>

definition val1_of :: "Object \<Rightarrow> Ray \<Rightarrow> real" where
  "val1_of s ray = dotProduct (Vec3d_minus (origin ray) (center s)) (direction ray)"

definition val3_of :: "Object \<Rightarrow> Ray \<Rightarrow> real" where
  "val3_of s ray =
     val1_of s ray * val1_of s ray
     - Vec3d_length (Vec3d_minus (origin ray) (center s))
       * Vec3d_length (Vec3d_minus (origin ray) (center s))
     + radius s * radius s"

definition dist1_of :: "Object \<Rightarrow> Ray \<Rightarrow> real" where
  "dist1_of s ray = - val1_of s ray + sqrt (val3_of s ray)"

definition dist2_of :: "Object \<Rightarrow> Ray \<Rightarrow> real" where
  "dist2_of s ray = - val1_of s ray - sqrt (val3_of s ray)"

section \<open>Properties\<close>

lemma intersect_unfold:
  "intersect s ray dist0 =
     (if val3_of s ray < 0 then (False, dist0)
      else if dist1_of s ray < 0 \<or> dist2_of s ray < 0
        then (std_max (dist1_of s ray) (dist2_of s ray) > eps,
              std_max (dist1_of s ray) (dist2_of s ray))
      else if dist1_of s ray > 0 \<and> dist2_of s ray > 0
        then (std_min (dist1_of s ray) (dist2_of s ray) > eps,
              std_min (dist1_of s ray) (dist2_of s ray))
      else (dist0 > eps, dist0))"
  by (cases s) (simp add: val1_of_def val3_of_def dist1_of_def dist2_of_def Let_def)

declare intersect.simps [simp del]

subsection \<open>Arithmetic of the intersection test\<close>

lemma std_max_eq: "std_max a b = max a b"
  by (simp add: std_max_def max_def)

lemma std_min_eq: "std_min a b = min a b"
  by (simp add: std_min_def min_def)

lemma dotProduct_self_nonneg: "0 \<le> dotProduct v v"
  by (cases v) simp

lemma length_times_length: "Vec3d_length v * Vec3d_length v = dotProduct v v"
  by (simp add: Vec3d_length_def dotProduct_self_nonneg)

text \<open>The discriminant in the specification's form \<open>tca\<^sup>2 - d2 + radius\<^sup>2\<close>.\<close>

lemma val3_of_eq:
  "val3_of s ray =
     (val1_of s ray)\<^sup>2
     - dotProduct (Vec3d_minus (origin ray) (center s)) (Vec3d_minus (origin ray) (center s))
     + (radius s)\<^sup>2"
  by (simp add: val3_of_def length_times_length power2_eq_square)

lemma dist2_le_dist1: "0 \<le> val3_of s ray \<Longrightarrow> dist2_of s ray \<le> dist1_of s ray"
  by (simp add: dist1_of_def dist2_of_def)

lemma intersect_assigned_max:
  assumes "0 \<le> val3_of s ray" and "dist1_of s ray < 0 \<or> dist2_of s ray < 0"
  shows "intersect s ray dist0 = (dist1_of s ray > eps, dist1_of s ray)"
proof -
  have "std_max (dist1_of s ray) (dist2_of s ray) = dist1_of s ray"
    using dist2_le_dist1 [OF assms(1)] by (simp add: std_max_def)
  with assms show ?thesis
    by (simp add: intersect_unfold)
qed

lemma intersect_assigned_min:
  assumes "0 \<le> val3_of s ray" and "0 < dist1_of s ray" and "0 < dist2_of s ray"
  shows "intersect s ray dist0 = (dist2_of s ray > eps, dist2_of s ray)"
proof -
  have "std_min (dist1_of s ray) (dist2_of s ray) = dist2_of s ray"
    using dist2_le_dist1 [OF assms(1)] by (simp add: std_min_def)
  with assms show ?thesis
    by (simp add: intersect_unfold)
qed

lemma intersect_fall_through:
  assumes "0 \<le> val3_of s ray"
    and "\<not> (dist1_of s ray < 0 \<or> dist2_of s ray < 0)"
    and "\<not> (0 < dist1_of s ray \<and> 0 < dist2_of s ray)"
  shows "intersect s ray dist0 = (dist0 > eps, dist0)"
  using assms by (auto simp add: intersect_unfold)

text \<open>
  \<open>dist\<close> comes back as it went in, whatever it held, exactly when neither branch of the
  selection is taken.
\<close>

lemma intersect_keeps_iff:
  assumes "0 \<le> val3_of s ray"
  shows "(\<forall>d. snd (intersect s ray d) = d) \<longleftrightarrow>
           \<not> (dist1_of s ray < 0 \<or> dist2_of s ray < 0)
           \<and> \<not> (0 < dist1_of s ray \<and> 0 < dist2_of s ray)"
proof (cases "dist1_of s ray < 0 \<or> dist2_of s ray < 0")
  case True
  then have "snd (intersect s ray (dist1_of s ray + 1)) = dist1_of s ray"
    using assms by (simp add: intersect_assigned_max)
  then have "\<not> (\<forall>d. snd (intersect s ray d) = d)"
    by (metis add_cancel_left_right zero_neq_one)
  with True show ?thesis by simp
next
  case neg: False
  show ?thesis
  proof (cases "0 < dist1_of s ray \<and> 0 < dist2_of s ray")
    case True
    then have "snd (intersect s ray (dist2_of s ray + 1)) = dist2_of s ray"
      using assms by (simp add: intersect_assigned_min)
    then have "\<not> (\<forall>d. snd (intersect s ray d) = d)"
      by (metis add_cancel_left_right zero_neq_one)
    with True show ?thesis by simp
  next
    case False
    with neg assms show ?thesis
      by (simp add: intersect_fall_through)
  qed
qed

subsection \<open>Sphere behind the ray\<close>

text \<open>
  C3.  When both roots of the intersection are strictly negative (the sphere lies
  entirely behind the ray), \<open>intersect\<close> assigns the larger of the two to \<open>dist\<close>, that
  value does not exceed \<open>eps\<close>, and the function returns false, whatever \<open>dist\<close> held before.
\<close>

theorem both_negative_no_hit:
  assumes "0 \<le> val3_of s ray" and "dist1_of s ray < 0" and "dist2_of s ray < 0"
  shows "snd (intersect s ray dist0) = max (dist1_of s ray) (dist2_of s ray)
         \<and> \<not> (snd (intersect s ray dist0) > eps)
         \<and> fst (intersect s ray dist0) = False"
proof -
  have m: "max (dist1_of s ray) (dist2_of s ray) = dist1_of s ray"
    using dist2_le_dist1 [OF assms(1)] by simp
  have "intersect s ray dist0 = (dist1_of s ray > eps, dist1_of s ray)"
    using assms by (simp add: intersect_assigned_max)
  moreover have "\<not> dist1_of s ray > eps"
    using assms(2) by (simp add: eps_def)
  ultimately show ?thesis
    using m by simp
qed

text \<open>
  A unit sphere five units behind the camera, the ray looking down \<open>-z\<close>: the roots are
  \<open>-4\<close> and \<open>-6\<close>.
\<close>

lemma behind_vals:
  "val3_of (Sphere (Vec3d 0 0 5) 1) (Ray (Vec3d 0 0 0) (Vec3d 0 0 (- 1))) = 1"
  "dist1_of (Sphere (Vec3d 0 0 5) 1) (Ray (Vec3d 0 0 0) (Vec3d 0 0 (- 1))) = - 4"
  "dist2_of (Sphere (Vec3d 0 0 5) 1) (Ray (Vec3d 0 0 0) (Vec3d 0 0 (- 1))) = - 6"
  by (simp_all add: dist1_of_def dist2_of_def val3_of_eq val1_of_def)

theorem both_negative_no_hit_witness:
  "0 \<le> val3_of (Sphere (Vec3d 0 0 5) 1) (Ray (Vec3d 0 0 0) (Vec3d 0 0 (- 1)))
   \<and> dist1_of (Sphere (Vec3d 0 0 5) 1) (Ray (Vec3d 0 0 0) (Vec3d 0 0 (- 1))) < 0
   \<and> dist2_of (Sphere (Vec3d 0 0 5) 1) (Ray (Vec3d 0 0 0) (Vec3d 0 0 (- 1))) < 0
   \<and> snd (intersect (Sphere (Vec3d 0 0 5) 1) (Ray (Vec3d 0 0 0) (Vec3d 0 0 (- 1))) 7) = - 4
   \<and> fst (intersect (Sphere (Vec3d 0 0 5) 1) (Ray (Vec3d 0 0 0) (Vec3d 0 0 (- 1))) 7) = False"
  using both_negative_no_hit
    [of "Sphere (Vec3d 0 0 5) 1" "Ray (Vec3d 0 0 0) (Vec3d 0 0 (- 1))" 7]
  by (simp add: behind_vals intersect_unfold std_max_def eps_def)

subsection \<open>Roots of mixed sign, and when \<open>dist\<close> is left alone\<close>

text \<open>
  C9.  Whenever exactly one root is strictly negative, the condition
  \<open>dist1 < 0 || dist2 < 0\<close> holds and \<open>dist\<close> is assigned \<open>max(dist1, dist2)\<close>; the function
  returns true exactly when that value exceeds \<open>eps\<close>, and when the other root is positive
  (roots of mixed sign, the origin inside the sphere) the assigned value is that positive
  root.  For a discriminant \<open>\<ge> 0\<close>, \<open>dist\<close> is left as the caller had it exactly when
  neither root is strictly negative and not both are strictly positive, that is, when no
  root is negative and at least one is exactly zero.
\<close>

theorem one_negative_root_assigns_max:
  assumes "0 \<le> val3_of s ray"
  shows "((dist1_of s ray < 0) \<noteq> (dist2_of s ray < 0) \<longrightarrow>
            (dist1_of s ray < 0 \<or> dist2_of s ray < 0)
            \<and> snd (intersect s ray dist0) = max (dist1_of s ray) (dist2_of s ray)
            \<and> fst (intersect s ray dist0) = (max (dist1_of s ray) (dist2_of s ray) > eps)
            \<and> (0 < dist1_of s ray \<or> 0 < dist2_of s ray
                 \<longrightarrow> 0 < max (dist1_of s ray) (dist2_of s ray)))
         \<and> ((\<forall>d. snd (intersect s ray d) = d) \<longleftrightarrow>
              \<not> (dist1_of s ray < 0 \<or> dist2_of s ray < 0)
              \<and> \<not> (0 < dist1_of s ray \<and> 0 < dist2_of s ray))
         \<and> (\<not> (dist1_of s ray < 0 \<or> dist2_of s ray < 0)
              \<and> \<not> (0 < dist1_of s ray \<and> 0 < dist2_of s ray)
            \<longleftrightarrow> 0 \<le> dist1_of s ray \<and> 0 \<le> dist2_of s ray
                \<and> (dist1_of s ray = 0 \<or> dist2_of s ray = 0))"
proof (intro conjI impI)
  assume one: "(dist1_of s ray < 0) \<noteq> (dist2_of s ray < 0)"
  then show neg: "dist1_of s ray < 0 \<or> dist2_of s ray < 0"
    by blast
  have m: "max (dist1_of s ray) (dist2_of s ray) = dist1_of s ray"
    using dist2_le_dist1 [OF assms] by simp
  have i: "intersect s ray dist0 = (dist1_of s ray > eps, dist1_of s ray)"
    using assms neg by (rule intersect_assigned_max)
  show "snd (intersect s ray dist0) = max (dist1_of s ray) (dist2_of s ray)"
    by (simp add: i m)
  show "fst (intersect s ray dist0) = (max (dist1_of s ray) (dist2_of s ray) > eps)"
    by (simp add: i m)
  assume "0 < dist1_of s ray \<or> 0 < dist2_of s ray"
  then show "0 < max (dist1_of s ray) (dist2_of s ray)"
    by auto
next
  show "(\<forall>d. snd (intersect s ray d) = d) \<longleftrightarrow>
          \<not> (dist1_of s ray < 0 \<or> dist2_of s ray < 0)
          \<and> \<not> (0 < dist1_of s ray \<and> 0 < dist2_of s ray)"
    using assms by (rule intersect_keeps_iff)
next
  show "\<not> (dist1_of s ray < 0 \<or> dist2_of s ray < 0)
          \<and> \<not> (0 < dist1_of s ray \<and> 0 < dist2_of s ray)
        \<longleftrightarrow> 0 \<le> dist1_of s ray \<and> 0 \<le> dist2_of s ray
            \<and> (dist1_of s ray = 0 \<or> dist2_of s ray = 0)"
    by auto
qed

text \<open>The camera at the centre of a unit sphere: the roots are \<open>1\<close> and \<open>-1\<close>.\<close>

lemma inside_vals:
  "val3_of (Sphere (Vec3d 0 0 0) 1) (Ray (Vec3d 0 0 0) (Vec3d 0 0 (- 1))) = 1"
  "dist1_of (Sphere (Vec3d 0 0 0) 1) (Ray (Vec3d 0 0 0) (Vec3d 0 0 (- 1))) = 1"
  "dist2_of (Sphere (Vec3d 0 0 0) 1) (Ray (Vec3d 0 0 0) (Vec3d 0 0 (- 1))) = - 1"
  by (simp_all add: dist1_of_def dist2_of_def val3_of_eq val1_of_def)

text \<open>
  The camera on a unit sphere centred one unit ahead: the roots are \<open>2\<close> and \<open>0\<close>.
\<close>

lemma on_sphere_vals:
  "val1_of (Sphere (Vec3d 0 0 (- 1)) 1) (Ray (Vec3d 0 0 0) (Vec3d 0 0 (- 1))) = - 1"
  "val3_of (Sphere (Vec3d 0 0 (- 1)) 1) (Ray (Vec3d 0 0 0) (Vec3d 0 0 (- 1))) = 1"
  "dist1_of (Sphere (Vec3d 0 0 (- 1)) 1) (Ray (Vec3d 0 0 0) (Vec3d 0 0 (- 1))) = 2"
  "dist2_of (Sphere (Vec3d 0 0 (- 1)) 1) (Ray (Vec3d 0 0 0) (Vec3d 0 0 (- 1))) = 0"
  by (simp_all add: dist1_of_def dist2_of_def val3_of_eq val1_of_def)

theorem one_negative_root_assigns_max_witness:
  "0 \<le> val3_of (Sphere (Vec3d 0 0 0) 1) (Ray (Vec3d 0 0 0) (Vec3d 0 0 (- 1)))
   \<and> (dist1_of (Sphere (Vec3d 0 0 0) 1) (Ray (Vec3d 0 0 0) (Vec3d 0 0 (- 1))) < 0)
       \<noteq> (dist2_of (Sphere (Vec3d 0 0 0) 1) (Ray (Vec3d 0 0 0) (Vec3d 0 0 (- 1))) < 0)
   \<and> 0 < dist1_of (Sphere (Vec3d 0 0 0) 1) (Ray (Vec3d 0 0 0) (Vec3d 0 0 (- 1)))
   \<and> snd (intersect (Sphere (Vec3d 0 0 0) 1) (Ray (Vec3d 0 0 0) (Vec3d 0 0 (- 1))) 7) = 1
   \<and> fst (intersect (Sphere (Vec3d 0 0 0) 1) (Ray (Vec3d 0 0 0) (Vec3d 0 0 (- 1))) 7) = True
   \<and> 0 \<le> val3_of (Sphere (Vec3d 0 0 (- 1)) 1) (Ray (Vec3d 0 0 0) (Vec3d 0 0 (- 1)))
   \<and> dist2_of (Sphere (Vec3d 0 0 (- 1)) 1) (Ray (Vec3d 0 0 0) (Vec3d 0 0 (- 1))) = 0
   \<and> snd (intersect (Sphere (Vec3d 0 0 (- 1)) 1) (Ray (Vec3d 0 0 0) (Vec3d 0 0 (- 1))) 7) = 7
   \<and> snd (intersect (Sphere (Vec3d 0 0 (- 1)) 1) (Ray (Vec3d 0 0 0) (Vec3d 0 0 (- 1))) 9) = 9"
  using one_negative_root_assigns_max
    [of "Sphere (Vec3d 0 0 0) 1" "Ray (Vec3d 0 0 0) (Vec3d 0 0 (- 1))" 7]
    one_negative_root_assigns_max
    [of "Sphere (Vec3d 0 0 (- 1)) 1" "Ray (Vec3d 0 0 0) (Vec3d 0 0 (- 1))" 7]
  by (simp add: inside_vals on_sphere_vals intersect_unfold std_max_def eps_def)

subsection \<open>Roots that straddle zero\<close>

text \<open>
  The camera inside a sphere of radius 5 centred three units ahead: the roots are \<open>8\<close>
  and \<open>-2\<close>.
\<close>

lemma straddle_vals:
  "val3_of (Sphere (Vec3d 0 0 (- 3)) 5) (Ray (Vec3d 0 0 0) (Vec3d 0 0 (- 1))) = 25"
  "dist1_of (Sphere (Vec3d 0 0 (- 3)) 5) (Ray (Vec3d 0 0 0) (Vec3d 0 0 (- 1))) = 8"
  "dist2_of (Sphere (Vec3d 0 0 (- 3)) 5) (Ray (Vec3d 0 0 0) (Vec3d 0 0 (- 1))) = - 2"
  by (simp_all add: dist1_of_def dist2_of_def val3_of_eq val1_of_def)

text \<open>
  C1 as the specification has it: when the roots straddle zero no case of the selection
  applies, \<open>dist\<close> is not assigned, and the result depends on the value \<open>dist\<close> held.
  It fails for the camera inside a sphere of radius 5 centred three units ahead (roots
  \<open>8\<close> and \<open>-2\<close>): \<open>dist\<close> comes back as \<open>8\<close> and the result is true, from \<open>0\<close> as from
  \<open>100\<close>.
\<close>

theorem straddle_falls_through_counterexample:
  "dist2_of (Sphere (Vec3d 0 0 (- 3)) 5) (Ray (Vec3d 0 0 0) (Vec3d 0 0 (- 1))) < 0
   \<and> 0 < dist1_of (Sphere (Vec3d 0 0 (- 3)) 5) (Ray (Vec3d 0 0 0) (Vec3d 0 0 (- 1)))
   \<and> intersect (Sphere (Vec3d 0 0 (- 3)) 5) (Ray (Vec3d 0 0 0) (Vec3d 0 0 (- 1))) 0 = (True, 8)
   \<and> intersect (Sphere (Vec3d 0 0 (- 3)) 5) (Ray (Vec3d 0 0 0) (Vec3d 0 0 (- 1))) 100
       = (True, 8)"
  by (simp add: straddle_vals intersect_unfold std_max_def eps_def)

text \<open>
  C1, amended.  When the roots straddle zero (one positive, one negative; the ray's origin
  inside the sphere), the first case of the selection applies: \<open>dist\<close> is assigned the
  larger, positive root whatever it held before, and the returned result is whether that
  root exceeds \<open>eps\<close>, independent of the previous value of \<open>dist\<close>.
\<close>

theorem straddle_assigns_positive_root:
  assumes "0 \<le> val3_of s ray"
    and "dist2_of s ray < 0 \<and> 0 < dist1_of s ray \<or> dist1_of s ray < 0 \<and> 0 < dist2_of s ray"
  shows "snd (intersect s ray dist0) = max (dist1_of s ray) (dist2_of s ray)
         \<and> 0 < snd (intersect s ray dist0)
         \<and> fst (intersect s ray dist0) = (max (dist1_of s ray) (dist2_of s ray) > eps)
         \<and> intersect s ray dist0 = intersect s ray dist0'"
proof -
  have le: "dist2_of s ray \<le> dist1_of s ray"
    using assms(1) by (rule dist2_le_dist1)
  with assms(2) have signs: "dist2_of s ray < 0" "0 < dist1_of s ray"
    by auto
  have "intersect s ray d = (dist1_of s ray > eps, dist1_of s ray)" for d
    using assms(1) signs(1) by (simp add: intersect_assigned_max)
  then show ?thesis
    using signs by (simp add: max_def)
qed

theorem straddle_assigns_positive_root_witness:
  "0 \<le> val3_of (Sphere (Vec3d 0 0 (- 3)) 5) (Ray (Vec3d 0 0 0) (Vec3d 0 0 (- 1)))
   \<and> dist2_of (Sphere (Vec3d 0 0 (- 3)) 5) (Ray (Vec3d 0 0 0) (Vec3d 0 0 (- 1))) < 0
   \<and> 0 < dist1_of (Sphere (Vec3d 0 0 (- 3)) 5) (Ray (Vec3d 0 0 0) (Vec3d 0 0 (- 1)))
   \<and> snd (intersect (Sphere (Vec3d 0 0 (- 3)) 5) (Ray (Vec3d 0 0 0) (Vec3d 0 0 (- 1))) 7) = 8
   \<and> fst (intersect (Sphere (Vec3d 0 0 (- 3)) 5) (Ray (Vec3d 0 0 0) (Vec3d 0 0 (- 1))) 7)
       = ((8::real) > eps)
   \<and> intersect (Sphere (Vec3d 0 0 (- 3)) 5) (Ray (Vec3d 0 0 0) (Vec3d 0 0 (- 1))) 7
       = intersect (Sphere (Vec3d 0 0 (- 3)) 5) (Ray (Vec3d 0 0 0) (Vec3d 0 0 (- 1))) 9"
  using straddle_assigns_positive_root
    [of "Sphere (Vec3d 0 0 (- 3)) 5" "Ray (Vec3d 0 0 0) (Vec3d 0 0 (- 1))" 7 9]
  by (simp add: straddle_vals intersect_unfold std_max_def eps_def)

subsection \<open>Sphere in front of the ray\<close>

text \<open>
  With the centre in front of the ray (\<open>val1 < 0\<close>) the first root is positive.  As long
  as the second root is not zero, \<open>intersect\<close> returns true exactly when the discriminant
  is \<open>\<ge> 0\<close> and the root the selection assigns exceeds \<open>eps\<close>; a tangent ray has the double
  root \<open>- val1\<close> and is a hit when that exceeds \<open>eps\<close>.
\<close>

lemma intersect_front_iff:
  assumes "val1_of s ray < 0" and "0 \<le> val3_of s ray \<longrightarrow> dist2_of s ray \<noteq> 0"
  shows "fst (intersect s ray dist0) \<longleftrightarrow>
           0 \<le> val3_of s ray
           \<and> eps < (if dist2_of s ray < 0 then dist1_of s ray else dist2_of s ray)"
proof (cases "0 \<le> val3_of s ray")
  case False
  then show ?thesis by (simp add: intersect_unfold)
next
  case True
  then have "0 \<le> sqrt (val3_of s ray)"
    by simp
  with assms(1) have "0 < dist1_of s ray"
    unfolding dist1_of_def by linarith
  show ?thesis
  proof (cases "dist2_of s ray < 0")
    case True
    with \<open>0 \<le> val3_of s ray\<close> show ?thesis by (simp add: intersect_assigned_max)
  next
    case False
    with assms(2) \<open>0 \<le> val3_of s ray\<close> have "0 < dist2_of s ray" by simp
    with \<open>0 \<le> val3_of s ray\<close> \<open>0 < dist1_of s ray\<close> show ?thesis
      by (simp add: intersect_assigned_min)
  qed
qed

lemma intersect_tangent:
  assumes "val1_of s ray < 0" and "val3_of s ray = 0"
  shows "intersect s ray dist0 = (- val1_of s ray > eps, - val1_of s ray)"
proof -
  have "dist1_of s ray = - val1_of s ray" "dist2_of s ray = - val1_of s ray"
    using assms(2) by (simp_all add: dist1_of_def dist2_of_def)
  with assms show ?thesis
    by (simp add: intersect_assigned_min)
qed

text \<open>
  C2.  For a ray of unit direction and a sphere whose centre is in front of it,
  \<open>intersect\<close> is to return true exactly when the discriminant is \<open>\<ge> 0\<close> and the selected
  root exceeds \<open>eps\<close>.  With the ray's origin on the sphere the second root is exactly zero,
  neither case of the selection assigns \<open>dist\<close>, and the result is the test of whatever
  \<open>dist\<close> held: for the unit sphere centred one unit ahead (roots \<open>2\<close> and \<open>0\<close>) the answer
  is false from \<open>0\<close> and true from \<open>100\<close>, so it is no function of the ray and the sphere.
\<close>

theorem front_origin_on_sphere_stale:
  "Vec3d_length (direction (Ray (Vec3d 0 0 0) (Vec3d 0 0 (- 1)))) = 1
   \<and> val1_of (Sphere (Vec3d 0 0 (- 1)) 1) (Ray (Vec3d 0 0 0) (Vec3d 0 0 (- 1))) < 0
   \<and> val3_of (Sphere (Vec3d 0 0 (- 1)) 1) (Ray (Vec3d 0 0 0) (Vec3d 0 0 (- 1))) = 1
   \<and> dist1_of (Sphere (Vec3d 0 0 (- 1)) 1) (Ray (Vec3d 0 0 0) (Vec3d 0 0 (- 1))) = 2
   \<and> dist2_of (Sphere (Vec3d 0 0 (- 1)) 1) (Ray (Vec3d 0 0 0) (Vec3d 0 0 (- 1))) = 0
   \<and> intersect (Sphere (Vec3d 0 0 (- 1)) 1) (Ray (Vec3d 0 0 0) (Vec3d 0 0 (- 1))) 0
       = (False, 0)
   \<and> intersect (Sphere (Vec3d 0 0 (- 1)) 1) (Ray (Vec3d 0 0 0) (Vec3d 0 0 (- 1))) 100
       = (True, 100)"
  by (simp add: on_sphere_vals intersect_unfold eps_def Vec3d_length_def)

subsection \<open>Length and normalisation\<close>

lemma Vec3d_length_zero_iff: "Vec3d_length v = 0 \<longleftrightarrow> v = Vec3d 0 0 0"
proof (cases v)
  case (Vec3d a b c)
  have "a * a + b * b + c * c = 0 \<longleftrightarrow> a = 0 \<and> b = 0 \<and> c = 0"
  proof
    assume z: "a * a + b * b + c * c = 0"
    have "0 \<le> a * a" "0 \<le> b * b" "0 \<le> c * c" by simp_all
    with z have "a * a = 0" "b * b = 0" "c * c = 0" by linarith+
    then show "a = 0 \<and> b = 0 \<and> c = 0" by simp
  qed simp
  with Vec3d show ?thesis
    by (simp add: Vec3d_length_def)
qed

lemma normalize_length_one:
  assumes "Vec3d_length v \<noteq> 0"
  shows "Vec3d_length (Vec3d (vec_x v / Vec3d_length v) (vec_y v / Vec3d_length v)
           (vec_z v / Vec3d_length v)) = 1"
proof (cases v)
  case (Vec3d a b c)
  define l where "l = Vec3d_length v"
  have l2: "l * l = a * a + b * b + c * c"
    using Vec3d by (simp add: l_def length_times_length)
  have l0: "l \<noteq> 0" using assms by (simp add: l_def)
  have "a / l * (a / l) + b / l * (b / l) + c / l * (c / l) = (a * a + b * b + c * c) / (l * l)"
    by (simp add: add_divide_distrib)
  also have "\<dots> = 1"
    using l0 by (simp add: l2 [symmetric])
  finally show ?thesis
    using Vec3d by (simp add: Vec3d_length_def l_def)
qed

subsection \<open>Pixels whose ray hits nothing\<close>

lemma nearest_hit_no_hit:
  "no_hit objects ray t \<Longrightarrow>
     fst (nearest_hit objects ray (dst, curo, t)) = dst
     \<and> fst (snd (nearest_hit objects ray (dst, curo, t))) = curo"
proof (induction objects arbitrary: t)
  case Nil
  then show ?case by simp
next
  case (Cons ob objects)
  obtain hit t' where i: "intersect ob ray t = (hit, t')"
    by (cases "intersect ob ray t")
  with Cons.prems have "\<not> hit" "no_hit objects ray t'"
    by simp_all
  with Cons.IH [of t'] i show ?case
    by simp
qed

text \<open>
  C5.  When no call of \<open>intersect\<close> in the nearest-hit loop returns true for the
  primary ray, the colour stored for the pixel is the background colour itself: neither the
  clamp nor the ambient term touches it.
\<close>

theorem no_hit_background:
  assumes "no_hit objects ray tmpdist0"
  shows "trace_pixel objects lights background scolor ray tmpdist0 = Inr background"
proof -
  obtain dst curo t where n: "nearest_hit objects ray (DBL_MAX, None, tmpdist0) = (dst, curo, t)"
    by (cases "nearest_hit objects ray (DBL_MAX, None, tmpdist0)")
  with nearest_hit_no_hit [OF assms, of DBL_MAX None] have "curo = None"
    by simp
  with n show ?thesis
    by (simp add: trace_pixel_def)
qed

text \<open>The scene of main and a ray straight up: every discriminant is negative.\<close>

lemma up_misses:
  "intersect (Sphere (Vec3d 0 0 (- 20)) 5) (Ray (Vec3d 0 0 0) (Vec3d 0 1 0)) t = (False, t)"
  "intersect (Sphere (Vec3d 2 1 (- 15)) 1) (Ray (Vec3d 0 0 0) (Vec3d 0 1 0)) t = (False, t)"
  "intersect (Sphere (Vec3d 4 4 (- 22)) (5 / 2)) (Ray (Vec3d 0 0 0) (Vec3d 0 1 0)) t = (False, t)"
  "intersect (Sphere (Vec3d 80 (- 6) (- 150)) 5) (Ray (Vec3d 0 0 0) (Vec3d 0 1 0)) t = (False, t)"
  "intersect (Sphere (Vec3d (- 4) 4 (- 5)) (5 / 2)) (Ray (Vec3d 0 0 0) (Vec3d 0 1 0)) t = (False, t)"
  by (simp_all add: intersect_unfold val3_of_eq val1_of_def power2_eq_square)

theorem no_hit_background_witness:
  "no_hit main_objects (Ray (Vec3d 0 0 0) (Vec3d 0 1 0)) 7
   \<and> trace_pixel main_objects main_lights main_background Color_red
        (Ray (Vec3d 0 0 0) (Vec3d 0 1 0)) 7 = Inr (Color 0 0.5 0.5)"
proof -
  have h: "no_hit main_objects (Ray (Vec3d 0 0 0) (Vec3d 0 1 0)) 7"
    by (simp add: main_objects_def up_misses)
  show ?thesis
    using h no_hit_background [OF h, of main_lights main_background Color_red]
    by (simp add: main_background_def)
qed

text \<open>
  The direction \<open>(cam_x, cam_y, -1)\<close> of a primary ray is never the zero vector, so
  normalising it does not divide by zero and every pixel has a primary ray (of unit
  direction, in the exact arithmetic of this model).
\<close>

lemma normalize_defined:
  assumes "v \<noteq> Vec3d 0 0 0"
  shows "\<exists>d. normalize v = Inr d \<and> Vec3d_length d = 1"
proof -
  have nz: "Vec3d_length v \<noteq> 0"
    using assms by (simp add: Vec3d_length_zero_iff)
  then have "normalize v = Inr (Vec3d (vec_x v / Vec3d_length v) (vec_y v / Vec3d_length v)
                             (vec_z v / Vec3d_length v))"
    by (cases v) (simp add: normalize_def Let_def)
  with normalize_length_one [OF nz] show ?thesis
    by simp
qed

lemma primary_ray_defined:
  "\<exists>d. primary_ray W H FOV x y = Inr (Ray (Vec3d 0 0 0) d) \<and> Vec3d_length d = 1"
proof -
  define cam_x where
    "cam_x = (2 * ((real x + 0.5) / real W) - 1) * (real W / real H) * tan (deg2rad FOV / 2)"
  define cam_y where "cam_y = (1 - 2 * ((real y + 0.5) / real H)) * tan (deg2rad FOV / 2)"
  have "Vec3d cam_x cam_y (- 1) \<noteq> Vec3d 0 0 0"
    by simp
  then obtain d where "normalize (Vec3d cam_x cam_y (- 1)) = Inr d" "Vec3d_length d = 1"
    using normalize_defined by blast
  then show ?thesis
    by (simp add: primary_ray_def Let_def cam_x_def cam_y_def)
qed

lemma render_pixel_background:
  assumes "primary_ray 800 500 100 x y = Inr ray" and "no_hit objects ray tmpdist0"
  shows "render_pixel objects lights background scolor x y tmpdist0 = Inr background"
proof -
  have "trace_pixel objects lights background scolor ray tmpdist0 = Inr background"
    using assms(2) nearest_hit_no_hit [OF assms(2), of DBL_MAX None]
    by (cases "nearest_hit objects ray (DBL_MAX, None, tmpdist0)")
       (simp add: trace_pixel_def)
  with assms(1) show ?thesis
    by (simp add: render_pixel_def)
qed

subsection \<open>Colour channels\<close>

lemma clamp_min_max: "clamp 0 1 v = min 1 (max 0 v)"
  by (simp add: clamp_def Let_def min_def max_def)

lemma Color_clamp_channels:
  "Color_clamp 0 1 c = Color (min 1 (max 0 (col_r c))) (min 1 (max 0 (col_g c)))
                         (min 1 (max 0 (col_b c)))"
  by (cases c) (simp add: clamp_min_max)

lemma Color_plus_channels:
  "Color_plus c d = Color (col_r c + col_r d) (col_g c + col_g d) (col_b c + col_b d)"
  by (cases c; cases d) simp

lemma Color_times_d_channels:
  "Color_times_d c k = Color (col_r c * k) (col_g c * k) (col_b c * k)"
  by (cases c) simp

lemma Color_times_channels:
  "Color_times c d = Color (col_r c * col_r d) (col_g c * col_g d) (col_b c * col_b d)"
  by (cases c; cases d) simp

subsection \<open>The loops over the objects and the lights\<close>

lemma shadow_scan_no_hit: "fst (shadow_scan objects ray t) \<longleftrightarrow> \<not> no_hit objects ray t"
proof (induction objects arbitrary: t)
  case Nil
  then show ?case by simp
next
  case (Cons ob objects)
  then show ?case
    by (cases "intersect ob ray t") simp
qed

lemma shadow_scan_member:
  assumes "ob \<in> set objects" and "\<And>t. fst (intersect ob ray t)"
  shows "fst (shadow_scan objects ray t0)"
  using assms(1)
proof (induction objects arbitrary: t0)
  case Nil
  then show ?case by simp
next
  case (Cons a objects)
  obtain hit t' where i: "intersect a ray t0 = (hit, t')"
    by (cases "intersect a ray t0")
  show ?case
  proof (cases hit)
    case True
    with i show ?thesis by simp
  next
    case False
    with i assms(2) [of t0] have "a \<noteq> ob" by auto
    with Cons.prems have "ob \<in> set objects" by simp
    from Cons.IH [OF this, of t'] i False show ?thesis by simp
  qed
qed

lemma light_step_unoccluded:
  assumes "normalize (Vec3d_minus (pos l) pintersect) = Inr lv"
    and "\<not> fst (shadow_scan objects (Ray pintersect lv) tmpdist)"
  shows "light_step objects scolor pintersect (Inr n) l (px, tmpdist)
           = Inr (Color_plus px (Color_times_d (Color_times scolor (color l)) (dotProduct n lv)),
                  snd (shadow_scan objects (Ray pintersect lv) tmpdist))"
  using assms
  by (cases "shadow_scan objects (Ray pintersect lv) tmpdist") (simp add: light_step_def)

lemma light_step_occluded:
  assumes "normalize (Vec3d_minus (pos l) pintersect) = Inr lv"
    and "fst (shadow_scan objects (Ray pintersect lv) tmpdist)"
  shows "light_step objects scolor pintersect n l (px, tmpdist)
           = Inr (px, snd (shadow_scan objects (Ray pintersect lv) tmpdist))"
  using assms
  by (cases "shadow_scan objects (Ray pintersect lv) tmpdist") (simp add: light_step_def)

text \<open>The loop over a list of lights is the loop over its front part, then over the rest.\<close>

lemma shade_lights_append:
  "shade_lights objects scolor pintersect n (ls1 @ ls2) st =
     (case shade_lights objects scolor pintersect n ls1 st of
        Inl e \<Rightarrow> Inl e
      | Inr st' \<Rightarrow> shade_lights objects scolor pintersect n ls2 st')"
proof (induction ls1 arbitrary: st)
  case Nil
  then show ?case by simp
next
  case (Cons l ls1)
  then show ?case
    by (cases "light_step objects scolor pintersect n l st") simp_all
qed

text \<open>
  A scene for the examples: a sphere of radius 5 centred 20 units down the \<open>-z\<close> axis
  (the first sphere of main), in some of them with a unit sphere behind the camera.  The
  ray down the axis hits the first at distance 15, at the point \<open>(0, 0, -15)\<close> with normal
  \<open>(0, 0, 1)\<close>.  From that point, a shadow ray down \<open>-z\<close> starts on the first sphere and
  enters it (roots \<open>10\<close> and \<open>0\<close>, so \<open>dist\<close> is left alone), one up \<open>+z\<close> leaves it (roots
  \<open>0\<close> and \<open>-10\<close>) and meets the second sphere at distance 19, and one towards
  \<open>(0, 3, -11)\<close> leaves it as well (roots \<open>0\<close> and \<open>-8\<close>).
\<close>

lemma primary_S1:
  "intersect (Sphere (Vec3d 0 0 (- 20)) 5) (Ray (Vec3d 0 0 0) (Vec3d 0 0 (- 1))) t = (True, 15)"
  by (simp add: intersect_unfold dist1_of_def dist2_of_def val3_of_eq val1_of_def std_min_def
      eps_def)

lemma back_S1:
  "intersect (Sphere (Vec3d 0 0 (- 20)) 5) (Ray (Vec3d 0 0 (- 15)) (Vec3d 0 0 (- 1))) t
     = (eps < t, t)"
  by (simp add: intersect_unfold dist1_of_def dist2_of_def val3_of_eq val1_of_def)

lemma front_S1:
  "intersect (Sphere (Vec3d 0 0 (- 20)) 5) (Ray (Vec3d 0 0 (- 15)) (Vec3d 0 0 1)) t = (False, 0)"
  by (simp add: intersect_unfold dist1_of_def dist2_of_def val3_of_eq val1_of_def std_max_def
      eps_def)

lemma front_S2:
  "intersect (Sphere (Vec3d 0 0 5) 1) (Ray (Vec3d 0 0 (- 15)) (Vec3d 0 0 1)) t = (True, 19)"
  by (simp add: intersect_unfold dist1_of_def dist2_of_def val3_of_eq val1_of_def std_min_def
      eps_def)

lemma side_S1:
  "intersect (Sphere (Vec3d 0 0 (- 20)) 5) (Ray (Vec3d 0 0 (- 15)) (Vec3d 0 (3 / 5) (4 / 5))) t
     = (False, 0)"
  by (simp add: intersect_unfold dist1_of_def dist2_of_def val3_of_eq val1_of_def std_max_def
      eps_def power2_eq_square)

lemma norm_back: "normalize (Vec3d 0 0 (- 85)) = Inr (Vec3d 0 0 (- 1))"
  by (simp add: normalize_def Vec3d_length_def)

lemma norm_front: "normalize (Vec3d 0 0 5) = Inr (Vec3d 0 0 1)"
  by (simp add: normalize_def Vec3d_length_def)

lemma norm_side: "normalize (Vec3d 0 3 4) = Inr (Vec3d 0 (3 / 5) (4 / 5))"
  by (simp add: normalize_def Vec3d_length_def)

lemma DBL_MAX_large: "15 < DBL_MAX"
  by (simp add: DBL_MAX_def)

subsection \<open>Colour of a pixel whose ray hits a surface\<close>

text \<open>
  C6.  For every pixel whose nearest-hit search ends with an object, the colour stored
  for the pixel is: the colour accumulated over the lights, clamped to \<open>[0, 1]\<close> channel by
  channel, plus \<open>scolor * 0.1\<close>, clamped to \<open>[0, 1]\<close> again, in this order.  (Where the
  accumulated colour is no triple of reals, neither is the stored one.)
\<close>

theorem hit_pixel_clamp_ambient_clamp:
  assumes "primary_ray 800 500 100 x y = Inr ray"
    and "nearest_hit objects ray (DBL_MAX, None, tmpdist0) = (dst, Some curo, t)"
  shows "render_pixel objects lights background scolor x y tmpdist0
           = (case shade_lights objects scolor (getPoint ray dst)
                     (getNormal curo (getPoint ray dst)) lights (Color 0 0 0, t) of
                Inl e \<Rightarrow> Inl e
              | Inr (acc, t') \<Rightarrow>
                  Inr (Color_clamp 0 1
                         (Color_plus (Color_clamp 0 1 acc) (Color_times_d scolor 0.1))))
         \<and> Color_clamp 0 1 (Color_plus (Color_clamp 0 1 acc) (Color_times_d scolor 0.1))
           = Color (min 1 (max 0 (min 1 (max 0 (col_r acc)) + col_r scolor * 0.1)))
                   (min 1 (max 0 (min 1 (max 0 (col_g acc)) + col_g scolor * 0.1)))
                   (min 1 (max 0 (min 1 (max 0 (col_b acc)) + col_b scolor * 0.1)))"
proof
  show "render_pixel objects lights background scolor x y tmpdist0
           = (case shade_lights objects scolor (getPoint ray dst)
                     (getNormal curo (getPoint ray dst)) lights (Color 0 0 0, t) of
                Inl e \<Rightarrow> Inl e
              | Inr (acc, t') \<Rightarrow>
                  Inr (Color_clamp 0 1
                         (Color_plus (Color_clamp 0 1 acc) (Color_times_d scolor 0.1))))"
    using assms by (simp add: render_pixel_def trace_pixel_def Let_def)
  show "Color_clamp 0 1 (Color_plus (Color_clamp 0 1 acc) (Color_times_d scolor 0.1))
          = Color (min 1 (max 0 (min 1 (max 0 (col_r acc)) + col_r scolor * 0.1)))
                  (min 1 (max 0 (min 1 (max 0 (col_g acc)) + col_g scolor * 0.1)))
                  (min 1 (max 0 (min 1 (max 0 (col_b acc)) + col_b scolor * 0.1)))"
    by (simp add: Color_clamp_channels Color_plus_channels Color_times_d_channels clamp_min_max)
qed

text \<open>
  The camera at the centre of a unit sphere: every primary ray hits it at distance 1, at
  the point that is the ray's direction, and a light at the camera is found in shadow
  (the shadow ray starts on the sphere and enters it, and \<open>tmpdist\<close> still holds 1).
\<close>

lemma centre_hit:
  "intersect (Sphere (Vec3d 0 0 0) 1) (Ray (Vec3d 0 0 0) d) t = (True, 1)"
  by (cases d)
     (simp add: intersect_unfold dist1_of_def dist2_of_def val3_of_eq val1_of_def std_max_def
       eps_def)

lemma centre_point: "getPoint (Ray (Vec3d 0 0 0) d) 1 = d"
  by (cases d) (simp add: getPoint_def)

lemma centre_normal: "getNormal (Sphere (Vec3d 0 0 0) 1) d = Inr d"
  by (cases d) simp

lemma centre_light:
  assumes "Vec3d_length d = 1"
  shows "normalize (Vec3d_minus (Vec3d 0 0 0) d) = Inr (Vec3d_minus (Vec3d 0 0 0) d)"
proof (cases d)
  case (Vec3d a b c)
  with assms have "sqrt (a * a + b * b + c * c) = 1"
    by (simp add: Vec3d_length_def)
  with Vec3d show ?thesis
    by (simp add: normalize_def Vec3d_length_def)
qed

lemma centre_shadow:
  assumes "Vec3d_length d = 1"
  shows "intersect (Sphere (Vec3d 0 0 0) 1) (Ray d (Vec3d_minus (Vec3d 0 0 0) d)) t = (eps < t, t)"
proof (cases d)
  case (Vec3d a b c)
  with assms have "sqrt (a * a + b * b + c * c) = 1"
    by (simp add: Vec3d_length_def)
  then have one: "a * a + b * b + c * c = 1"
    by simp
  have "- (a * a) - b * b - c * c = - (a * a + b * b + c * c)"
    by simp
  then have v1: "val1_of (Sphere (Vec3d 0 0 0) 1) (Ray d (Vec3d_minus (Vec3d 0 0 0) d)) = - 1"
    by (simp add: Vec3d val1_of_def one)
  have v3: "val3_of (Sphere (Vec3d 0 0 0) 1) (Ray d (Vec3d_minus (Vec3d 0 0 0) d)) = 1"
    by (simp add: val3_of_eq v1) (simp add: Vec3d one)
  show ?thesis
    by (simp add: intersect_unfold dist1_of_def dist2_of_def v1 v3)
qed

theorem hit_pixel_clamp_ambient_clamp_witness:
  "render_pixel [Sphere (Vec3d 0 0 0) 1] [Light (Vec3d 0 0 0) Color_white] main_background
     Color_red 0 0 7 = Inr (Color (1 / 10) 0 0)
   \<and> shade_lights [Sphere (Vec3d 0 0 (- 20)) 5] Color_red (Vec3d 0 0 (- 15))
        (Inr (Vec3d 0 0 1))
        [Light (Vec3d 0 3 (- 11)) Color_white, Light (Vec3d 0 3 (- 11)) Color_white]
        (Color 0 0 0, 15)
      = Inr (Color (8 / 5) 0 0, 0)
   \<and> trace_pixel [Sphere (Vec3d 0 0 (- 20)) 5]
        [Light (Vec3d 0 3 (- 11)) Color_white, Light (Vec3d 0 3 (- 11)) Color_white]
        main_background Color_red (Ray (Vec3d 0 0 0) (Vec3d 0 0 (- 1))) 7
      = Inr (Color 1 0 0)"
proof -
  have lit: "shade_lights [Sphere (Vec3d 0 0 (- 20)) 5] Color_red (Vec3d 0 0 (- 15))
        (Inr (Vec3d 0 0 1))
        [Light (Vec3d 0 3 (- 11)) Color_white, Light (Vec3d 0 3 (- 11)) Color_white]
        (Color 0 0 0, 15)
      = Inr (Color (8 / 5) 0 0, 0)"
    by (simp add: light_step_def norm_side side_S1 Color_red_def Color_white_def)
  have px: "trace_pixel [Sphere (Vec3d 0 0 (- 20)) 5]
        [Light (Vec3d 0 3 (- 11)) Color_white, Light (Vec3d 0 3 (- 11)) Color_white]
        main_background Color_red (Ray (Vec3d 0 0 0) (Vec3d 0 0 (- 1))) 7
      = Inr (Color 1 0 0)"
    by (simp add: trace_pixel_def primary_S1 DBL_MAX_large getPoint_def light_step_def
        norm_side side_S1 clamp_def Color_red_def Color_white_def)
  obtain d where pr: "primary_ray 800 500 100 0 0 = Inr (Ray (Vec3d 0 0 0) d)"
    and len: "Vec3d_length d = 1"
    using primary_ray_defined by blast
  have nh: "nearest_hit [Sphere (Vec3d 0 0 0) 1] (Ray (Vec3d 0 0 0) d) (DBL_MAX, None, 7)
              = (1, Some (Sphere (Vec3d 0 0 0) 1), 1)"
    by (simp add: centre_hit DBL_MAX_def)
  have sh: "shade_lights [Sphere (Vec3d 0 0 0) 1] Color_red (getPoint (Ray (Vec3d 0 0 0) d) 1)
              (getNormal (Sphere (Vec3d 0 0 0) 1) (getPoint (Ray (Vec3d 0 0 0) d) 1))
              [Light (Vec3d 0 0 0) Color_white] (Color 0 0 0, 1) = Inr (Color 0 0 0, 1)"
    by (simp add: centre_point light_step_def centre_light [OF len] centre_shadow [OF len]
        eps_def)
  show ?thesis
    using hit_pixel_clamp_ambient_clamp [OF pr nh, where lights = "[Light (Vec3d 0 0 0) Color_white]"
        and scolor = Color_red and background = main_background] sh lit px
    by (simp add: Color_red_def clamp_def)
qed

subsection \<open>Diffuse term of an unoccluded light\<close>

text \<open>
  C4.  In the loop over the lights, for a light \<open>l\<close> that the occlusion loop does not find
  in shadow, the iteration adds \<open>scolor * l.color * dot(n, lv)\<close> to the colour \<open>px\<close> the lights
  before \<open>l\<close> have accumulated, the dot product as it is, and the loop goes on from that
  sum: when the dot product is negative (the light behind the surface), every channel whose
  tint \<open>scolor * l.color\<close> is positive becomes strictly smaller.
\<close>

theorem unoccluded_light_adds_unclamped:
  assumes "shade_lights objects scolor pintersect (Inr n) ls1 (px0, t0) = Inr (px, tmpdist)"
    and "normalize (Vec3d_minus (pos l) pintersect) = Inr lv"
    and "\<not> fst (shadow_scan objects (Ray pintersect lv) tmpdist)"
    and "px' = Color_plus px (Color_times_d (Color_times scolor (color l)) (dotProduct n lv))"
  shows "light_step objects scolor pintersect (Inr n) l (px, tmpdist)
           = Inr (px', snd (shadow_scan objects (Ray pintersect lv) tmpdist))
         \<and> shade_lights objects scolor pintersect (Inr n) (ls1 @ l # ls2) (px0, t0)
           = shade_lights objects scolor pintersect (Inr n) ls2
               (px', snd (shadow_scan objects (Ray pintersect lv) tmpdist))
         \<and> shade_lights objects scolor pintersect (Inr n) (ls1 @ [l]) (px0, t0)
           = Inr (px', snd (shadow_scan objects (Ray pintersect lv) tmpdist))
         \<and> col_r px' = col_r px + col_r scolor * col_r (color l) * dotProduct n lv
         \<and> col_g px' = col_g px + col_g scolor * col_g (color l) * dotProduct n lv
         \<and> col_b px' = col_b px + col_b scolor * col_b (color l) * dotProduct n lv
         \<and> (dotProduct n lv < 0 \<longrightarrow>
              (0 < col_r scolor * col_r (color l) \<longrightarrow> col_r px' < col_r px)
              \<and> (0 < col_g scolor * col_g (color l) \<longrightarrow> col_g px' < col_g px)
              \<and> (0 < col_b scolor * col_b (color l) \<longrightarrow> col_b px' < col_b px))"
proof -
  have step: "light_step objects scolor pintersect (Inr n) l (px, tmpdist)
           = Inr (px', snd (shadow_scan objects (Ray pintersect lv) tmpdist))"
    using light_step_unoccluded [OF assms(2,3)] assms(4) by simp
  have loop: "shade_lights objects scolor pintersect (Inr n) (ls1 @ l # ls2) (px0, t0)
           = shade_lights objects scolor pintersect (Inr n) ls2
               (px', snd (shadow_scan objects (Ray pintersect lv) tmpdist))" for ls2
    by (simp add: shade_lights_append assms(1) step)
  have ch: "col_r px' = col_r px + col_r scolor * col_r (color l) * dotProduct n lv"
    "col_g px' = col_g px + col_g scolor * col_g (color l) * dotProduct n lv"
    "col_b px' = col_b px + col_b scolor * col_b (color l) * dotProduct n lv"
    by (simp_all add: assms(4) Color_plus_channels Color_times_d_channels Color_times_channels)
  have neg: "a + k * d < a" if "d < 0" "0 < k" for a k d :: real
    using that by (simp add: mult_pos_neg)
  show ?thesis
    using step loop [of ls2] loop [of "[]"] ch neg by simp
qed

theorem unoccluded_light_adds_unclamped_witness:
  "shade_lights [Sphere (Vec3d 0 0 (- 20)) 5] Color_red (Vec3d 0 0 (- 15)) (Inr (Vec3d 0 0 1))
     [Light (Vec3d 0 3 (- 11)) Color_white] (Color 0 0 0, 15) = Inr (Color (4 / 5) 0 0, 0)
   \<and> normalize (Vec3d_minus (pos (Light (Vec3d 0 0 (- 100)) Color_white)) (Vec3d 0 0 (- 15)))
     = Inr (Vec3d 0 0 (- 1))
   \<and> \<not> fst (shadow_scan [Sphere (Vec3d 0 0 (- 20)) 5]
              (Ray (Vec3d 0 0 (- 15)) (Vec3d 0 0 (- 1))) 0)
   \<and> dotProduct (Vec3d 0 0 1) (Vec3d 0 0 (- 1)) < 0
   \<and> shade_lights [Sphere (Vec3d 0 0 (- 20)) 5] Color_red (Vec3d 0 0 (- 15))
        (Inr (Vec3d 0 0 1))
        [Light (Vec3d 0 3 (- 11)) Color_white, Light (Vec3d 0 0 (- 100)) Color_white]
        (Color 0 0 0, 15)
      = Inr (Color (- (1 / 5)) 0 0, 0)
   \<and> col_r (Color (- (1 / 5)) 0 0) < col_r (Color (4 / 5) 0 0)
   \<and> trace_pixel [Sphere (Vec3d 0 0 (- 20)) 5] [Light (Vec3d 0 3 (- 11)) Color_white]
        main_background Color_red (Ray (Vec3d 0 0 0) (Vec3d 0 0 (- 1))) 7
      = Inr (Color (9 / 10) 0 0)
   \<and> trace_pixel [Sphere (Vec3d 0 0 (- 20)) 5]
        [Light (Vec3d 0 3 (- 11)) Color_white, Light (Vec3d 0 0 (- 100)) Color_white]
        main_background Color_red (Ray (Vec3d 0 0 0) (Vec3d 0 0 (- 1))) 7
      = Inr (Color (1 / 10) 0 0)"
proof -
  have first: "shade_lights [Sphere (Vec3d 0 0 (- 20)) 5] Color_red (Vec3d 0 0 (- 15))
     (Inr (Vec3d 0 0 1)) [Light (Vec3d 0 3 (- 11)) Color_white] (Color 0 0 0, 15)
     = Inr (Color (4 / 5) 0 0, 0)"
    by (simp add: light_step_def norm_side side_S1 Color_red_def Color_white_def)
  have nl: "normalize (Vec3d_minus (pos (Light (Vec3d 0 0 (- 100)) Color_white))
              (Vec3d 0 0 (- 15))) = Inr (Vec3d 0 0 (- 1))"
    by (simp add: norm_back)
  have un: "\<not> fst (shadow_scan [Sphere (Vec3d 0 0 (- 20)) 5]
              (Ray (Vec3d 0 0 (- 15)) (Vec3d 0 0 (- 1))) 0)"
    by (simp add: back_S1 eps_def)
  have px': "Color (- (1 / 5)) 0 0
      = Color_plus (Color (4 / 5) 0 0)
          (Color_times_d (Color_times Color_red (color (Light (Vec3d 0 0 (- 100)) Color_white)))
             (dotProduct (Vec3d 0 0 1) (Vec3d 0 0 (- 1))))"
    by (simp add: Color_red_def Color_white_def)
  have both: "shade_lights [Sphere (Vec3d 0 0 (- 20)) 5] Color_red (Vec3d 0 0 (- 15))
        (Inr (Vec3d 0 0 1))
        [Light (Vec3d 0 3 (- 11)) Color_white, Light (Vec3d 0 0 (- 100)) Color_white]
        (Color 0 0 0, 15)
      = Inr (Color (- (1 / 5)) 0 0, 0)"
    using unoccluded_light_adds_unclamped [OF first nl un px', where ?ls2.0 = "[]"]
    by (simp add: back_S1 eps_def)
  have t1: "trace_pixel [Sphere (Vec3d 0 0 (- 20)) 5] [Light (Vec3d 0 3 (- 11)) Color_white]
        main_background Color_red (Ray (Vec3d 0 0 0) (Vec3d 0 0 (- 1))) 7
      = Inr (Color (9 / 10) 0 0)"
    by (simp add: trace_pixel_def primary_S1 DBL_MAX_large getPoint_def light_step_def
        norm_side side_S1 clamp_def Color_red_def Color_white_def)
  have t2: "trace_pixel [Sphere (Vec3d 0 0 (- 20)) 5]
        [Light (Vec3d 0 3 (- 11)) Color_white, Light (Vec3d 0 0 (- 100)) Color_white]
        main_background Color_red (Ray (Vec3d 0 0 0) (Vec3d 0 0 (- 1))) 7
      = Inr (Color (1 / 10) 0 0)"
    by (simp add: trace_pixel_def primary_S1 DBL_MAX_large getPoint_def light_step_def
        norm_side side_S1 norm_back back_S1 eps_def clamp_def Color_red_def Color_white_def)
  show ?thesis
    using first nl un both t1 t2 by simp
qed

subsection \<open>Occlusion takes no account of the distance to the light\<close>

text \<open>
  C10.  The occlusion loop reports a shadow exactly when one of its calls of
  \<open>intersect\<close> returns true; no distance is compared with the distance to the light.  So an
  object of the scene that the shadow ray hits at a distance \<open>d\<close> greater than the distance
  from the hit point to the light still puts the light in shadow: the iteration leaves the
  pixel colour as it was.
\<close>

theorem far_surface_still_occludes:
  assumes "normalize (Vec3d_minus (pos l) pintersect) = Inr lv"
    and "ob \<in> set objects"
    and "\<forall>t. intersect ob (Ray pintersect lv) t = (True, d)"
    and "Vec3d_length (Vec3d_minus (pos l) pintersect) < d"
  shows "(fst (shadow_scan objects (Ray pintersect lv) tmpdist)
            \<longleftrightarrow> \<not> no_hit objects (Ray pintersect lv) tmpdist)
         \<and> fst (shadow_scan objects (Ray pintersect lv) tmpdist)
         \<and> light_step objects scolor pintersect n l (px, tmpdist)
             = Inr (px, snd (shadow_scan objects (Ray pintersect lv) tmpdist))"
proof -
  have "fst (intersect ob (Ray pintersect lv) t)" for t
    using assms(3) by simp
  with assms(2) have "fst (shadow_scan objects (Ray pintersect lv) tmpdist)"
    by (rule shadow_scan_member)
  with light_step_occluded [OF assms(1)] shadow_scan_no_hit show ?thesis
    by simp
qed

theorem far_surface_still_occludes_witness:
  "normalize (Vec3d_minus (pos (Light (Vec3d 0 0 (- 10)) Color_white)) (Vec3d 0 0 (- 15)))
     = Inr (Vec3d 0 0 1)
   \<and> Sphere (Vec3d 0 0 5) 1 \<in> set [Sphere (Vec3d 0 0 (- 20)) 5, Sphere (Vec3d 0 0 5) 1]
   \<and> (\<forall>t. intersect (Sphere (Vec3d 0 0 5) 1) (Ray (Vec3d 0 0 (- 15)) (Vec3d 0 0 1)) t
            = (True, 19))
   \<and> Vec3d_length (Vec3d_minus (pos (Light (Vec3d 0 0 (- 10)) Color_white))
        (Vec3d 0 0 (- 15))) < 19
   \<and> light_step [Sphere (Vec3d 0 0 (- 20)) 5, Sphere (Vec3d 0 0 5) 1] Color_red
        (Vec3d 0 0 (- 15)) (Inr (Vec3d 0 0 1)) (Light (Vec3d 0 0 (- 10)) Color_white)
        (Color 0 0 0, - 4)
      = Inr (Color 0 0 0, 19)"
proof -
  have nl: "normalize (Vec3d_minus (pos (Light (Vec3d 0 0 (- 10)) Color_white))
              (Vec3d 0 0 (- 15))) = Inr (Vec3d 0 0 1)"
    by (simp add: norm_front)
  have m: "Sphere (Vec3d 0 0 5) 1 \<in> set [Sphere (Vec3d 0 0 (- 20)) 5, Sphere (Vec3d 0 0 5) 1]"
    by simp
  have i: "\<forall>t. intersect (Sphere (Vec3d 0 0 5) 1) (Ray (Vec3d 0 0 (- 15)) (Vec3d 0 0 1)) t
            = (True, 19)"
    by (simp add: front_S2)
  have far: "Vec3d_length (Vec3d_minus (pos (Light (Vec3d 0 0 (- 10)) Color_white))
        (Vec3d 0 0 (- 15))) < 19"
    by (simp add: Vec3d_length_def)
  show ?thesis
    using nl m i far
      far_surface_still_occludes [OF nl m i far, where scolor = Color_red
        and n = "Inr (Vec3d 0 0 1)" and px = "Color 0 0 0" and tmpdist = "- 4"]
    by (simp add: front_S1 front_S2)
qed

end
